theory Spec2Isabelle
  imports Complex_Main "HOL-Library.AList" "HOL-Library.Sublist"
begin

section \<open>Rush utilities: process execution, environment sanitizing, retries, purge\<close>

text \<open>
  A shallow embedding of \<^verbatim>\<open>Utilities\<close> (rush-lib) and of \<^verbatim>\<open>PurgeAction.run\<close>.
  JavaScript strings are modelled as \<^typ>\<open>string\<close>; an exception is a value \<open>Inl e\<close> of a sum;
  everything outside the process (the operating system, the clock, the console) is an explicit
  world that the functions take and return.
\<close>

subsection \<open>Host platform\<close>

text \<open>\<^verbatim>\<open>os.platform() === 'win32'\<close> is the only platform test of the source.\<close>

datatype platform = Win32 | Posix

definition EOL :: "platform \<Rightarrow> string" where
  \<comment> \<open>\<^verbatim>\<open>os.EOL\<close>: CR LF on Windows, LF elsewhere.\<close>
  "EOL p = (if p = Win32 then [CHR 0x0D, CHR 0x0A] else [CHR 0x0A])"

definition toUpperCase_char :: "char \<Rightarrow> char" where
  \<comment> \<open>The letters a..z are the codes 97..122; clearing bit 5 subtracts 32.\<close>
  "toUpperCase_char c =
     (if 97 \<le> (of_char c :: nat) \<and> (of_char c :: nat) \<le> 122
      then Char (digit0 c) (digit1 c) (digit2 c) (digit3 c) (digit4 c) False (digit6 c) (digit7 c)
      else c)"

definition toUpperCase :: "string \<Rightarrow> string" where
  \<comment> \<open>\<^verbatim>\<open>String.prototype.toUpperCase\<close> on the ASCII letters. Strings are byte strings
      here: the letters beyond ASCII, which JavaScript upper-cases too, are kept as they are.\<close>
  "toUpperCase s = map toUpperCase_char s"

subsection \<open>Environment snapshots\<close>

text \<open>
  \<^verbatim>\<open>IEnvironment\<close> is an object whose own properties map a variable name to
  \<^verbatim>\<open>string | undefined\<close>. It is modelled as the list of its own properties in the order
  \<^verbatim>\<open>Object.getOwnPropertyNames\<close> enumerates them; \<open>None\<close> is \<^verbatim>\<open>undefined\<close>.
  An object has each property name once: \<open>distinct (map fst env)\<close>.
\<close>

type_synonym IEnvironment = "(string \<times> string option) list"

definition getProperty :: "IEnvironment \<Rightarrow> string \<Rightarrow> string option" where
  \<comment> \<open>\<^verbatim>\<open>initialEnvironment[key]\<close>: reading a missing property gives \<^verbatim>\<open>undefined\<close>.\<close>
  "getProperty env key = (case map_of env key of Some v \<Rightarrow> v | None \<Rightarrow> None)"

definition setProperty :: "string \<Rightarrow> string option \<Rightarrow> IEnvironment \<Rightarrow> IEnvironment" where
  \<comment> \<open>\<^verbatim>\<open>environment[key] = value\<close> on an object created by \<^verbatim>\<open>{}\<close>. The key
      \<^verbatim>\<open>__proto__\<close> reaches the setter of the prototype, which ignores a string and
      \<^verbatim>\<open>undefined\<close>: no own property appears.\<close>
  "setProperty key v environment =
     (if key = ''__proto__'' then environment else AList.update key v environment)"

definition normalizedKey :: "platform \<Rightarrow> string \<Rightarrow> string" where
  "normalizedKey p key = (if p = Win32 then toUpperCase key else key)"

text \<open>
  The \<^verbatim>\<open>for (const key of Object.getOwnPropertyNames(initialEnvironment))\<close> loop of
  \<^verbatim>\<open>_createEnvironmentForRushCommand\<close>; each \<^verbatim>\<open>continue\<close> is a branch that leaves
  \<open>environment\<close> as it is. \<^verbatim>\<open>normalizedKey.match(/^NPM_CONFIG_/)\<close> is a prefix test.
\<close>

fun copyEntries :: "platform \<Rightarrow> IEnvironment \<Rightarrow> string list \<Rightarrow> IEnvironment \<Rightarrow> IEnvironment" where
  "copyEntries p initialEnvironment [] environment = environment"
| "copyEntries p initialEnvironment (key # keys) environment =
     (if normalizedKey p key = ''INIT_CWD''
        then copyEntries p initialEnvironment keys environment
      else if prefix ''NPM_CONFIG_'' (normalizedKey p key)
        then copyEntries p initialEnvironment keys environment
      else copyEntries p initialEnvironment keys
             (setProperty key (getProperty initialEnvironment key) environment))"

definition createEnvironmentForRushCommand ::
  "platform \<Rightarrow> IEnvironment \<Rightarrow> string \<Rightarrow> IEnvironment option \<Rightarrow> IEnvironment" where
  \<comment> \<open>\<open>process_env\<close> is \<^verbatim>\<open>process.env\<close>; an \<^verbatim>\<open>undefined\<close> \<open>initialEnvironment\<close> is \<open>None\<close>.
      The empty string is the only falsy value of \<open>initCwd\<close>.\<close>
  "createEnvironmentForRushCommand p process_env initCwd initialEnvironment =
     (let initialEnvironment' =
            (case initialEnvironment of None \<Rightarrow> process_env | Some e \<Rightarrow> e);
          environment = copyEntries p initialEnvironment' (map fst initialEnvironment') []
      in if initCwd \<noteq> [] then setProperty ''INIT_CWD'' (Some initCwd) environment
         else environment)"

subsection \<open>Errors, numbers and strings\<close>

text \<open>
  A thrown value is an \<^verbatim>\<open>Error\<close> object: its message and, for the errors of
  \<^verbatim>\<open>child_process\<close>, the \<^verbatim>\<open>errno\<close> property the source compares with
  \<^verbatim>\<open>'ENOENT'\<close> (\<open>None\<close> when the property is missing or is not a string).
\<close>

record js_error =
  message :: string
  errno :: "string option"

definition new_Error :: "string \<Rightarrow> js_error" where
  "new_Error msg = \<lparr>message = msg, errno = None\<rparr>"


definition digit_char :: "nat \<Rightarrow> char" where
  "digit_char d = ''0123456789'' ! d"

function digits :: "nat \<Rightarrow> string" where
  "digits n = (if n < 10 then [digit_char n] else digits (n div 10) @ [digit_char (n mod 10)])"
  by pat_completeness auto
termination
  by (relation "measure id") auto

declare digits.simps [simp del]

definition number_toString :: "int \<Rightarrow> string" where
  \<comment> \<open>The decimal text JavaScript gives an integer (of magnitude below \<open>10^21\<close>).\<close>
  "number_toString n = (if n < 0 then CHR ''-'' # digits (nat (- n)) else digits (nat n))"


fun join :: "string list \<Rightarrow> string \<Rightarrow> string" where
  "join [] sep = []"
| "join [x] sep = x"
| "join (x # y # ys) sep = x @ sep @ join (y # ys) sep"

subsection \<open>The world outside the process\<close>

datatype stdio_entry = Pipe | Fd nat

record SpawnSyncOptions =
  cwd :: string
  shell :: bool
  stdio :: "stdio_entry list option"
  env :: "IEnvironment option"

text \<open>
  \<^verbatim>\<open>child_process.SpawnSyncReturns<Buffer>\<close>: \<open>error\<close> is set when the process could
  not be spawned; \<open>status\<close> is the exit code, \<^verbatim>\<open>null\<close> (\<open>None\<close>) when the child did not
  exit by itself; \<open>stdout\<close> and \<open>stderr\<close> are \<^verbatim>\<open>null\<close> unless piped.
\<close>

record SpawnSyncReturns =
  error :: "js_error option"
  status :: "int option"
  stdout :: "string option"
  stderr :: "string option"

text \<open>
  Every call that leaves the modelled code is recorded, in order, in \<open>calls\<close>; what the call
  does to the operating system (files, processes, the clock) is the change of \<open>os\<close>.
\<close>

datatype call =
    SpawnSync string "string list" SpawnSyncOptions
  | ConsoleLog string
  | ConsoleError string
  | RetryCallback
  | Rimraf string bool
  | EventHook string
  | NewPurgeManager
  | RegisterNormalTargets
  | RegisterUnsafeTargets
  | DeleteAll

record 'os world =
  os :: 'os
  calls :: "call list"

type_synonym ('os, 'a) action = "'os world \<Rightarrow> (js_error + 'a) \<times> 'os world"

definition external :: "call \<Rightarrow> ('os \<Rightarrow> 'r \<times> 'os) \<Rightarrow> 'os world \<Rightarrow> 'r \<times> 'os world" where
  \<comment> \<open>A call of code outside the model: recorded, and run on the operating system.\<close>
  "external c f w = (case f (os w) of (r, os') \<Rightarrow> (r, w\<lparr>os := os', calls := calls w @ [c]\<rparr>))"




text \<open>The host: platform, \<^verbatim>\<open>process.env\<close>, and the system calls the source uses.\<close>

record 'os host =
  os_platform :: platform
  process_env :: IEnvironment
  spawnSync :: "string \<Rightarrow> string list \<Rightarrow> SpawnSyncOptions \<Rightarrow> 'os \<Rightarrow> SpawnSyncReturns \<times> 'os"
  hrtime :: "'os \<Rightarrow> nat \<times> nat"

definition child_process_spawnSync ::
  "'os host \<Rightarrow> string \<Rightarrow> string list \<Rightarrow> SpawnSyncOptions \<Rightarrow> 'os world
     \<Rightarrow> SpawnSyncReturns \<times> 'os world" where
  "child_process_spawnSync h command args options =
     external (SpawnSync command args options) (spawnSync h command args options)"

subsection \<open>Synchronous execution\<close>

definition escapeShellParameter :: "string \<Rightarrow> string" where
  \<comment> \<open>\<^verbatim>\<open>'"' + parameter + '"'\<close>; \<open>CHR 0x22\<close> is the double quote.\<close>
  "escapeShellParameter parameter = [CHR 0x22] @ parameter @ [CHR 0x22]"

definition escapedCommand :: "string \<Rightarrow> string" where
  \<comment> \<open>\<^verbatim>\<open>command.indexOf(' ') < 0 ? command : Utilities.escapeShellParameter(command)\<close>\<close>
  "escapedCommand command =
     (if CHR '' '' \<notin> set command then command else escapeShellParameter command)"

definition escapedArgs :: "string list \<Rightarrow> string list" where
  \<comment> \<open>\<^verbatim>\<open>args.map((x) => Utilities.escapeShellParameter(x))\<close>\<close>
  "escapedArgs args = map escapeShellParameter args"

text \<open>
  With \<^verbatim>\<open>shell: true\<close>, \<^verbatim>\<open>child_process\<close> hands the shell one line, the command and the
  arguments joined by spaces. The shell cuts the line into the words the child receives: a
  space outside double quotes ends a word, and a double quote opens or closes a stretch that
  is taken as it is. What the shell does with its other special characters is not modelled:
  on a line that has one where it is special, the outcome is \<open>None\<close>, as it is when a quote
  stays open. Between double quotes fewer characters are special than outside.
\<close>

definition shellCommandLine :: "string \<Rightarrow> string list \<Rightarrow> string" where
  \<comment> \<open>\<^verbatim>\<open>[file].concat(args).join(' ')\<close>\<close>
  "shellCommandLine file args = join (file # args) '' ''"

definition special_in_quotes :: "char \<Rightarrow> bool" where
  \<comment> \<open>Special also between double quotes: backslash, backquote, line ends, and the
      expansion characters of \<^verbatim>\<open>sh\<close> and \<^verbatim>\<open>cmd\<close>.\<close>
  "special_in_quotes c \<longleftrightarrow> c \<in> set ([CHR 0x5C, CHR 0x60, CHR 0x0A, CHR 0x0D] @ ''$%!'')"

definition shell_special :: "char \<Rightarrow> bool" where
  \<comment> \<open>Special outside double quotes: in addition the single quote, the tab, and the operators
      and pattern characters.\<close>
  "shell_special c \<longleftrightarrow>
     special_in_quotes c \<or> c \<in> set ([CHR 0x27, CHR 0x09] @ ''|&;<>()*?[]#~=^{}'')"

fun shellWords :: "bool \<Rightarrow> string option \<Rightarrow> string \<Rightarrow> string list option" where
  "shellWords quoted word [] =
     (if quoted then None else Some (case word of None \<Rightarrow> [] | Some w \<Rightarrow> [w]))"
| "shellWords quoted word (c # cs) =
     (if c = CHR 0x22
        then shellWords (\<not> quoted) (Some (case word of None \<Rightarrow> [] | Some w \<Rightarrow> w)) cs
      else if c = CHR '' '' \<and> \<not> quoted
        then (case word of
                None \<Rightarrow> shellWords False None cs
              | Some w \<Rightarrow> map_option (Cons w) (shellWords False None cs))
      else if (if quoted then special_in_quotes c else shell_special c) then None
      else shellWords quoted (Some ((case word of None \<Rightarrow> [] | Some w \<Rightarrow> w) @ [c])) cs)"

definition deliveredArguments :: "string \<Rightarrow> string list \<Rightarrow> string list option" where
  \<comment> \<open>The command and the arguments the child process sees, for a spawn through the shell.\<close>
  "deliveredArguments file args = shellWords False None (shellCommandLine file args)"

definition quotable :: "string \<Rightarrow> bool" where
  \<comment> \<open>A token that the shell takes as it is between double quotes.\<close>
  "quotable token = list_all (\<lambda>c. c \<noteq> CHR 0x22 \<and> \<not> special_in_quotes c) token"

definition bare :: "string \<Rightarrow> bool" where
  \<comment> \<open>A token that the shell takes as it is, as one word, without quotes.\<close>
  "bare token = list_all (\<lambda>c. c \<noteq> CHR 0x22 \<and> c \<noteq> CHR '' '' \<and> \<not> shell_special c) token"

definition processResult :: "platform \<Rightarrow> SpawnSyncReturns \<Rightarrow> js_error + unit" where
  \<comment> \<open>\<^verbatim>\<open>if (result.status)\<close> holds for a number other than 0, not for \<^verbatim>\<open>null\<close>.\<close>
  "processResult p result =
     (case error result of
        Some e \<Rightarrow>
          Inl (e\<lparr>message := message e @ EOL p
                  @ (case stderr result of Some s \<Rightarrow> s @ EOL p | None \<Rightarrow> [])\<rparr>)
      | None \<Rightarrow>
          (case status result of
             Some n \<Rightarrow>
               if n \<noteq> 0
               then Inl (new_Error (''The command failed with exit code '' @ number_toString n
                          @ EOL p @ (case stderr result of Some s \<Rightarrow> s | None \<Rightarrow> [])))
               else Inr ()
           | None \<Rightarrow> Inr ()))"

definition spawnOptions ::
  "'os host \<Rightarrow> string \<Rightarrow> stdio_entry list option \<Rightarrow> IEnvironment option \<Rightarrow> bool
     \<Rightarrow> SpawnSyncOptions" where
  "spawnOptions h workingDirectory stdio' environment keepEnvironment =
     \<lparr>cwd = workingDirectory, shell = True, stdio = stdio',
      env = (if keepEnvironment then environment
             else Some (createEnvironmentForRushCommand (os_platform h) (process_env h) []
                          environment))\<rparr>"

definition isENOENT :: "SpawnSyncReturns \<Rightarrow> bool" where
  \<comment> \<open>\<^verbatim>\<open>result.error && (result.error as any).errno === 'ENOENT'\<close>\<close>
  "isENOENT result = (case error result of Some e \<Rightarrow> errno e = Some ''ENOENT'' | None \<Rightarrow> False)"

definition executeCommandInternal ::
  "'os host \<Rightarrow> string \<Rightarrow> string list \<Rightarrow> string \<Rightarrow> stdio_entry list option
     \<Rightarrow> IEnvironment option \<Rightarrow> bool \<Rightarrow> ('os, SpawnSyncReturns) action" where
  "executeCommandInternal h command args workingDirectory stdio' environment keepEnvironment w =
     (let options = spawnOptions h workingDirectory stdio' environment keepEnvironment;
          (result, w1) =
             child_process_spawnSync h (escapedCommand command) (escapedArgs args) options w;
          (result', w2) =
             (if isENOENT result
              then child_process_spawnSync h (command @ ''.cmd'') args options w1
              else (result, w1))
      in case processResult (os_platform h) result' of
           Inl e \<Rightarrow> (Inl e, w2)
         | Inr _ \<Rightarrow> (Inr result', w2))"


subsection \<open>Retry with an attempt budget\<close>








subsection \<open>Retry until a timeout\<close>




subsection \<open>Deleting a path\<close>

text \<open>
  The file system: the paths that exist, and the paths that another process holds open, which
  cannot be removed. Paths are taken in one canonical spelling, with \<^verbatim>\<open>/\<close> as the
  separator. A path lies within a folder when it is the folder or continues the folder's path
  after a separator (for a folder written with a final separator, as the root is: when it
  continues the folder's path).
\<close>

record filesystem =
  paths :: "string list"
  busy :: "string list"

definition lies_within :: "string \<Rightarrow> string \<Rightarrow> bool" where
  "lies_within folder q \<longleftrightarrow>
     q = folder
     \<or> prefix (if folder \<noteq> [] \<and> last folder = CHR ''/'' then folder else folder @ ''/'') q"

fun unlinkAll :: "string list \<Rightarrow> filesystem \<Rightarrow> (js_error + unit) \<times> filesystem" where
  "unlinkAll [] fs = (Inr (), fs)"
| "unlinkAll (q # qs) fs =
     (if q \<in> set (busy fs)
      then (Inl \<lparr>message = ''EBUSY: resource busy or locked, unlink '' @ q,
                 errno = Some ''EBUSY''\<rparr>, fs)
      else unlinkAll qs (fs\<lparr>paths := removeAll q (paths fs)\<rparr>))"

definition removeTree :: "string \<Rightarrow> filesystem \<Rightarrow> (js_error + unit) \<times> filesystem" where
  \<comment> \<open>The recursive removal of one literal path: its entries go one by one, the longer paths
      (the contents) before the shorter, until one is busy. A path that does not exist is
      no error.\<close>
  "removeTree p fs = unlinkAll (rev (sort_key length (filter (lies_within p) (paths fs)))) fs"

text \<open>
  \<^verbatim>\<open>rimraf.sync(path, options)\<close> is a library call. Its model follows the library: an empty
  path fails its assertion; the path is a glob pattern unless \<^verbatim>\<open>disableGlob\<close> is set or the
  path has no pattern character or names an existing entry; every path the pattern expands to
  is removed with its contents. The pattern test and the expansion of a pattern are parameters.
\<close>

record glob_impl =
  hasMagic :: "string \<Rightarrow> bool"
  globSync :: "string \<Rightarrow> filesystem \<Rightarrow> string list"

fun removeEach :: "string list \<Rightarrow> filesystem \<Rightarrow> (js_error + unit) \<times> filesystem" where
  "removeEach [] fs = (Inr (), fs)"
| "removeEach (p # ps) fs =
     (case removeTree p fs of
        (Inl e, fs') \<Rightarrow> (Inl e, fs')
      | (Inr _, fs') \<Rightarrow> removeEach ps fs')"

definition rimraf_sync ::
  "glob_impl \<Rightarrow> string \<Rightarrow> bool \<Rightarrow> filesystem \<Rightarrow> (js_error + unit) \<times> filesystem" where
  "rimraf_sync g p disableGlob fs =
     (if p = [] then (Inl (new_Error ''rimraf: missing path''), fs)
      else let results =
                 (if disableGlob \<or> \<not> hasMagic g p then [p]
                  else if p \<in> set (paths fs) then [p]
                  else globSync g p fs)
           in removeEach results fs)"


subsection \<open>The purge action\<close>








subsection \<open>A host for examples\<close>

text \<open>
  A host whose operating system state counts the processes spawned so far (each takes one
  second): \<^verbatim>\<open>npm\<close> is not found, \<^verbatim>\<open>tsc\<close> exits with status 2,
  \<^verbatim>\<open>sleep\<close> is killed by a signal, every other command exits with status 0.
\<close>

definition test_spawnSync :: "string \<Rightarrow> string list \<Rightarrow> SpawnSyncOptions \<Rightarrow> nat \<Rightarrow> SpawnSyncReturns \<times> nat" where
  "test_spawnSync command args options s =
     (if command = ''npm''
      then (\<lparr>error = Some \<lparr>message = ''spawnSync npm ENOENT'', errno = Some ''ENOENT''\<rparr>,
             status = None, stdout = None, stderr = None\<rparr>, Suc s)
      else if command = ''tsc''
      then (\<lparr>error = None, status = Some 2, stdout = Some [], stderr = Some ''error TS1005''\<rparr>,
            Suc s)
      else if command = ''sleep''
      then (\<lparr>error = None, status = None, stdout = Some [], stderr = Some []\<rparr>, Suc s)
      else (\<lparr>error = None, status = Some 0, stdout = Some [], stderr = Some []\<rparr>, Suc s))"

definition test_host :: "nat host" where
  "test_host = \<lparr>os_platform = Posix, process_env = [(''PATH'', Some ''/bin'')],
                 spawnSync = test_spawnSync, hrtime = (\<lambda>s. (s, 0))\<rparr>"

text \<open>
  A glob expansion that matches every existing path beginning with the text before the first
  star; and purge collaborators that never fail, over a clock that each call advances by one
  second.
\<close>

definition test_glob :: glob_impl where
  "test_glob =
     \<lparr>hasMagic = (\<lambda>p. CHR ''*'' \<in> set p),
      globSync = (\<lambda>p fs. filter (\<lambda>q. prefix (takeWhile (\<lambda>c. c \<noteq> CHR ''*'') p) q) (paths fs))\<rparr>"


section \<open>Verified properties\<close>

subsection \<open>Environment sanitizing\<close>

lemma copyEntries_append:
  "copyEntries p e (xs @ ys) acc = copyEntries p e ys (copyEntries p e xs acc)"
  by (induction xs arbitrary: acc) simp_all

lemma copyEntries_keys:
  "fst ` set (copyEntries p e ks acc) =
     fst ` set acc \<union> {k \<in> set ks. normalizedKey p k \<noteq> ''INIT_CWD''
                             \<and> \<not> prefix ''NPM_CONFIG_'' (normalizedKey p k) \<and> k \<noteq> ''__proto__''}"
  by (induction ks arbitrary: acc) (auto simp: setProperty_def AList.dom_update)

lemma copyEntries_distinct:
  "distinct (map fst acc) \<Longrightarrow> distinct (map fst (copyEntries p e ks acc))"
  by (induction ks arbitrary: acc) (simp_all add: setProperty_def AList.distinct_update)

lemma update_fresh: "k \<notin> fst ` set al \<Longrightarrow> AList.update k v al = al @ [(k, v)]"
  by (induction al) auto

lemma copyEntries_kept:
  "distinct (map fst (acc @ ys)) \<Longrightarrow>
   \<forall>(k, v) \<in> set ys. normalizedKey p k \<noteq> ''INIT_CWD'' \<and> \<not> prefix ''NPM_CONFIG_'' (normalizedKey p k)
       \<and> k \<noteq> ''__proto__'' \<and> getProperty e k = v \<Longrightarrow>
   copyEntries p e (map fst ys) acc = acc @ ys"
proof (induction ys arbitrary: acc)
  case Nil
  then show ?case by simp
next
  case (Cons y ys)
  obtain k v where y: "y = (k, v)" by (cases y)
  from Cons.prems(1) have fresh: "k \<notin> fst ` set acc" by (auto simp: y)
  have d: "distinct (map fst ((acc @ [(k, v)]) @ ys))" using Cons.prems(1) by (simp add: y)
  have "copyEntries p e (map fst (y # ys)) acc = copyEntries p e (map fst ys) (acc @ [(k, v)])"
    using Cons.prems(2) fresh by (simp add: y setProperty_def update_fresh)
  also have "\<dots> = (acc @ [(k, v)]) @ ys"
    using Cons.prems(2) by (intro Cons.IH[OF d]) (simp add: y)
  finally show ?case by (simp add: y)
qed

lemma normalizedKey_INIT_CWD: "normalizedKey p ''INIT_CWD'' = ''INIT_CWD''"
  by (cases p) (simp_all add: normalizedKey_def toUpperCase_def toUpperCase_char_def)

lemma filtered_keys:
  "key \<in> fst ` set (copyEntries p e ks []) \<Longrightarrow>
     normalizedKey p key \<noteq> ''INIT_CWD'' \<and> \<not> prefix ''NPM_CONFIG_'' (normalizedKey p key)
       \<and> key \<noteq> ''__proto__''"
  by (simp add: copyEntries_keys)

text \<open>
  Claim C1. Whatever the base environment (the given one or
  \<^verbatim>\<open>process.env\<close>), the returned environment has no key whose comparison key starts with
  \<^verbatim>\<open>NPM_CONFIG_\<close>; the only key whose comparison key is \<^verbatim>\<open>INIT_CWD\<close> is the key
  \<^verbatim>\<open>INIT_CWD\<close> itself, present only for a non-empty \<open>initCwd\<close>; and for a non-empty
  \<open>initCwd\<close> the returned environment maps \<^verbatim>\<open>INIT_CWD\<close> to exactly \<open>initCwd\<close>.
\<close>

theorem sanitized_environment:
  "(\<forall>key \<in> fst ` set (createEnvironmentForRushCommand p penv initCwd initialEnvironment).
       \<not> prefix ''NPM_CONFIG_'' (normalizedKey p key))
   \<and> (\<forall>key \<in> fst ` set (createEnvironmentForRushCommand p penv initCwd initialEnvironment).
       normalizedKey p key = ''INIT_CWD'' \<longrightarrow> key = ''INIT_CWD'' \<and> initCwd \<noteq> [])
   \<and> (initCwd \<noteq> [] \<longrightarrow>
       map_of (createEnvironmentForRushCommand p penv initCwd initialEnvironment) ''INIT_CWD''
         = Some (Some initCwd))"
proof -
  define e where "e = (case initialEnvironment of None \<Rightarrow> penv | Some e \<Rightarrow> e)"
  define f where "f = copyEntries p e (map fst e) []"
  have out: "createEnvironmentForRushCommand p penv initCwd initialEnvironment =
      (if initCwd \<noteq> [] then AList.update ''INIT_CWD'' (Some initCwd) f else f)"
    by (simp add: createEnvironmentForRushCommand_def setProperty_def e_def f_def Let_def)
  have f: "\<And>key. key \<in> fst ` set f \<Longrightarrow>
     normalizedKey p key \<noteq> ''INIT_CWD'' \<and> \<not> prefix ''NPM_CONFIG_'' (normalizedKey p key)"
    unfolding f_def using filtered_keys by blast
  have npm: "\<not> prefix ''NPM_CONFIG_'' (normalizedKey p ''INIT_CWD'')"
    by (simp add: normalizedKey_INIT_CWD)
  show ?thesis
  proof (cases "initCwd = []")
    case True
    with out have o: "createEnvironmentForRushCommand p penv initCwd initialEnvironment = f"
      by simp
    show ?thesis unfolding o using f True by auto
  next
    case False
    with out have o: "createEnvironmentForRushCommand p penv initCwd initialEnvironment
        = AList.update ''INIT_CWD'' (Some initCwd) f"
      by simp
    show ?thesis unfolding o using f npm False
      by (auto simp: AList.dom_update AList.update_conv')
  qed
qed

theorem sanitized_environment_witness:
  "createEnvironmentForRushCommand Win32 [] ''/repo''
      (Some [(''npm_config_registry'', Some ''http://r''), (''Init_Cwd'', Some ''/old''),
             (''PATH'', Some ''/bin'')])
     = [(''PATH'', Some ''/bin''), (''INIT_CWD'', Some ''/repo'')]
   \<and> \<not> prefix ''NPM_CONFIG_'' (normalizedKey Win32 ''PATH'')
   \<and> normalizedKey Win32 ''INIT_CWD'' = ''INIT_CWD''
   \<and> map_of (createEnvironmentForRushCommand Win32 [] ''/repo''
      (Some [(''npm_config_registry'', Some ''http://r''), (''Init_Cwd'', Some ''/old''),
             (''PATH'', Some ''/bin'')])) ''INIT_CWD'' = Some (Some ''/repo'')"
  using sanitized_environment [of Win32 "[]" "''/repo''"
      "Some [(''npm_config_registry'', Some ''http://r''), (''Init_Cwd'', Some ''/old''),
             (''PATH'', Some ''/bin'')]"]
  by (simp add: createEnvironmentForRushCommand_def setProperty_def normalizedKey_def
        getProperty_def toUpperCase_def toUpperCase_char_def)

lemma getProperty_distinct:
  "distinct (map fst al) \<Longrightarrow> (k, v) \<in> set al \<Longrightarrow> getProperty al k = v"
  by (simp add: getProperty_def)

lemma copyEntries_fixpoint:
  assumes d: "distinct (map fst f)"
    and k: "\<And>key. key \<in> fst ` set f \<Longrightarrow>
       normalizedKey p key \<noteq> ''INIT_CWD'' \<and> \<not> prefix ''NPM_CONFIG_'' (normalizedKey p key)
         \<and> key \<noteq> ''__proto__''"
    and sub: "set f \<subseteq> set e" and de: "distinct (map fst e)"
  shows "copyEntries p e (map fst f) [] = f"
proof -
  have "copyEntries p e (map fst f) [] = [] @ f"
  proof (rule copyEntries_kept)
    show "distinct (map fst ([] @ f))" using d by simp
    show "\<forall>(k, v)\<in>set f. normalizedKey p k \<noteq> ''INIT_CWD'' \<and>
         \<not> prefix ''NPM_CONFIG_'' (normalizedKey p k) \<and> k \<noteq> ''__proto__'' \<and> getProperty e k = v"
    proof (clarify, intro conjI)
      fix a b assume ab: "(a, b) \<in> set f"
      then have "a \<in> fst ` set f" by force
      from k[OF this] show "normalizedKey p a \<noteq> ''INIT_CWD''"
        and "\<not> prefix ''NPM_CONFIG_'' (normalizedKey p a)" and "a \<noteq> ''__proto__''" by simp_all
      from ab sub have "(a, b) \<in> set e" by blast
      then show "getProperty e a = b" using de by (rule getProperty_distinct[rotated])
    qed
  qed
  then show ?thesis by simp
qed

text \<open>
  Claim C9, as the code has it. Sanitizing a sanitized snapshot again with no \<open>initCwd\<close>
  gives the sanitized base without \<^verbatim>\<open>INIT_CWD\<close>: the same snapshot when the first run had
  no \<open>initCwd\<close> either.
\<close>

theorem resanitize:
  "createEnvironmentForRushCommand p penv []
       (Some (createEnvironmentForRushCommand p penv initCwd initialEnvironment))
     = createEnvironmentForRushCommand p penv [] initialEnvironment
   \<and> createEnvironmentForRushCommand p penv []
       (Some (createEnvironmentForRushCommand p penv [] initialEnvironment))
     = createEnvironmentForRushCommand p penv [] initialEnvironment"
proof -
  define e where "e = (case initialEnvironment of None \<Rightarrow> penv | Some e \<Rightarrow> e)"
  define f where "f = copyEntries p e (map fst e) []"
  have d: "distinct (map fst f)" unfolding f_def by (rule copyEntries_distinct) simp
  have k: "\<And>key. key \<in> fst ` set f \<Longrightarrow>
     normalizedKey p key \<noteq> ''INIT_CWD'' \<and> \<not> prefix ''NPM_CONFIG_'' (normalizedKey p key)
       \<and> key \<noteq> ''__proto__''"
    unfolding f_def by (rule filtered_keys)
  have empty: "createEnvironmentForRushCommand p penv [] initialEnvironment = f"
    by (simp add: createEnvironmentForRushCommand_def e_def f_def Let_def)
  have again: "createEnvironmentForRushCommand p penv [] (Some f) = f"
    using copyEntries_fixpoint[OF d k subset_refl d]
    by (simp add: createEnvironmentForRushCommand_def Let_def)
  have "createEnvironmentForRushCommand p penv []
          (Some (createEnvironmentForRushCommand p penv initCwd initialEnvironment)) = f"
  proof (cases "initCwd = []")
    case True
    then show ?thesis using again empty by simp
  next
    case False
    have fresh: "''INIT_CWD'' \<notin> fst ` set f" using k normalizedKey_INIT_CWD by blast
    define g where "g = f @ [(''INIT_CWD'', Some initCwd)]"
    have out: "createEnvironmentForRushCommand p penv initCwd initialEnvironment = g"
      using False fresh
      by (simp add: createEnvironmentForRushCommand_def setProperty_def Let_def
            e_def[symmetric] f_def[symmetric] update_fresh g_def)
    have dg: "distinct (map fst g)" using d fresh by (simp add: g_def)
    have "copyEntries p g (map fst g) [] = copyEntries p g [''INIT_CWD''] (copyEntries p g (map fst f) [])"
      by (simp add: g_def copyEntries_append)
    also have "copyEntries p g (map fst f) [] = f"
      by (rule copyEntries_fixpoint[OF d k _ dg]) (auto simp: g_def)
    also have "copyEntries p g [''INIT_CWD''] f = f"
      by (simp add: normalizedKey_INIT_CWD)
    finally have "copyEntries p g (map fst g) [] = f" .
    moreover have "createEnvironmentForRushCommand p penv [] (Some g)
        = copyEntries p g (map fst g) []"
      by (simp add: createEnvironmentForRushCommand_def Let_def)
    ultimately show ?thesis unfolding out by simp
  qed
  then show ?thesis using again empty by simp
qed

text \<open>
  Claim C9 as stated covers every output of the sanitizer; an output that holds an injected
  \<^verbatim>\<open>INIT_CWD\<close> loses it when sanitized again.
\<close>

theorem resanitize_drops_INIT_CWD:
  "createEnvironmentForRushCommand Posix [] []
      (Some (createEnvironmentForRushCommand Posix [] ''/repo'' (Some [(''PATH'', Some ''/bin'')])))
   \<noteq> createEnvironmentForRushCommand Posix [] ''/repo'' (Some [(''PATH'', Some ''/bin'')])"
  by (simp add: createEnvironmentForRushCommand_def setProperty_def normalizedKey_def
        getProperty_def)

subsection \<open>Synchronous execution\<close>

lemma spawn_call:
  "spawnSync h command args options (os w) = (r, s) \<Longrightarrow>
   child_process_spawnSync h command args options w
     = (r, w\<lparr>os := s, calls := calls w @ [SpawnSync command args options]\<rparr>)"
  by (simp add: child_process_spawnSync_def external_def)

lemma executeCommandInternal_no_fallback:
  assumes "spawnSync h (escapedCommand command) (escapedArgs args)
             (spawnOptions h workingDirectory stdio' environment keepEnvironment) (os w) = (r, s)"
    and "\<not> isENOENT r"
  shows "executeCommandInternal h command args workingDirectory stdio' environment keepEnvironment w
     = (case processResult (os_platform h) r of Inl e \<Rightarrow> Inl e | Inr _ \<Rightarrow> Inr r,
        w\<lparr>os := s, calls := calls w @ [SpawnSync (escapedCommand command) (escapedArgs args)
             (spawnOptions h workingDirectory stdio' environment keepEnvironment)]\<rparr>)"
  using assms
  by (simp add: executeCommandInternal_def spawn_call Let_def split: sum.splits)

lemma executeCommandInternal_fallback:
  assumes "spawnSync h (escapedCommand command) (escapedArgs args)
             (spawnOptions h workingDirectory stdio' environment keepEnvironment) (os w) = (r, s)"
    and "isENOENT r"
    and "spawnSync h (command @ ''.cmd'') args
             (spawnOptions h workingDirectory stdio' environment keepEnvironment) s = (r', s')"
  shows "executeCommandInternal h command args workingDirectory stdio' environment keepEnvironment w
     = (case processResult (os_platform h) r' of Inl e \<Rightarrow> Inl e | Inr _ \<Rightarrow> Inr r',
        w\<lparr>os := s', calls := calls w @
            [SpawnSync (escapedCommand command) (escapedArgs args)
               (spawnOptions h workingDirectory stdio' environment keepEnvironment),
             SpawnSync (command @ ''.cmd'') args
               (spawnOptions h workingDirectory stdio' environment keepEnvironment)]\<rparr>)"
  using assms
  by (simp add: executeCommandInternal_def spawn_call Let_def split: sum.splits)

lemma executeCommandInternal_result:
  assumes first: "spawnSync h (escapedCommand command) (escapedArgs args)
             (spawnOptions h workingDirectory stdio' environment keepEnvironment) (os w) = (r, s)"
    and second: "spawnSync h (command @ ''.cmd'') args
             (spawnOptions h workingDirectory stdio' environment keepEnvironment) s = (r', s')"
  shows "fst (executeCommandInternal h command args workingDirectory stdio' environment
                keepEnvironment w)
     = (case processResult (os_platform h) (if isENOENT r then r' else r) of
          Inl e \<Rightarrow> Inl e | Inr _ \<Rightarrow> Inr (if isENOENT r then r' else r))"
proof (cases "isENOENT r")
  case True
  from executeCommandInternal_fallback[OF first True second] True show ?thesis by simp
next
  case False
  from executeCommandInternal_no_fallback[OF first False] False show ?thesis by simp
qed

text \<open>
  Claim C5. Let \<open>final\<close> be the result that the result processing sees (the result of the
  first spawn, or of the second after \<^verbatim>\<open>ENOENT\<close>), and let it have no spawn error. If the
  child exited with status 0, the execution returns that result and raises nothing; if it
  exited with a status \<open>n\<close> other than 0, the execution raises an error whose message holds
  the decimal text of \<open>n\<close> and the captured standard error text.
\<close>

theorem exit_status_reported:
  assumes first: "spawnSync h (escapedCommand command) (escapedArgs args)
             (spawnOptions h workingDirectory stdio' environment keepEnvironment) (os w) = (r, s)"
    and second: "spawnSync h (command @ ''.cmd'') args
             (spawnOptions h workingDirectory stdio' environment keepEnvironment) s = (r', s')"
    and final: "final = (if isENOENT r then r' else r)"
    and spawned: "error final = None"
  shows "(status final = Some 0 \<longrightarrow>
            fst (executeCommandInternal h command args workingDirectory stdio' environment
                   keepEnvironment w) = Inr final)
       \<and> (\<forall>n. status final = Some n \<and> n \<noteq> 0 \<longrightarrow>
            fst (executeCommandInternal h command args workingDirectory stdio' environment
                   keepEnvironment w)
              = Inl (new_Error (''The command failed with exit code '' @ number_toString n
                        @ EOL (os_platform h)
                        @ (case stderr final of Some text \<Rightarrow> text | None \<Rightarrow> []))))"
  unfolding executeCommandInternal_result[OF first second] final[symmetric]
  using spawned by (auto simp: processResult_def)

theorem exit_status_reported_witness:
  "fst (executeCommandInternal test_host ''tsc'' [''-p'', ''.''] ''/repo'' (Some [Pipe, Pipe, Pipe])
          None False \<lparr>os = 0, calls = []\<rparr>)
     = Inl (new_Error (''The command failed with exit code 2'' @ [CHR 0x0A] @ ''error TS1005''))
   \<and> fst (executeCommandInternal test_host ''npm'' [''install''] ''/repo''
          (Some [Pipe, Pipe, Pipe]) None False \<lparr>os = 0, calls = []\<rparr>)
     = Inr \<lparr>error = None, status = Some 0, stdout = Some [], stderr = Some []\<rparr>"
proof -
  have tsc1: "spawnSync test_host (escapedCommand ''tsc'') (escapedArgs [''-p'', ''.''])
             (spawnOptions test_host ''/repo'' (Some [Pipe, Pipe, Pipe]) None False)
             (os \<lparr>os = 0::nat, calls = []\<rparr>)
        = (\<lparr>error = None, status = Some 2, stdout = Some [], stderr = Some ''error TS1005''\<rparr>, 1)"
    by (simp add: test_host_def test_spawnSync_def escapedCommand_def)
  have tsc2: "spawnSync test_host (''tsc'' @ ''.cmd'') [''-p'', ''.'']
             (spawnOptions test_host ''/repo'' (Some [Pipe, Pipe, Pipe]) None False) 1
        = (\<lparr>error = None, status = Some 0, stdout = Some [], stderr = Some []\<rparr>, 2)"
    by (simp add: test_host_def test_spawnSync_def)
  have tsc: "\<lparr>error = None, status = Some 2, stdout = Some [], stderr = Some ''error TS1005''\<rparr>
      = (if isENOENT \<lparr>error = None, status = Some 2, stdout = Some [],
                      stderr = Some ''error TS1005''\<rparr>
         then \<lparr>error = None, status = Some 0, stdout = Some [], stderr = Some []\<rparr>
         else \<lparr>error = None, status = Some 2, stdout = Some [], stderr = Some ''error TS1005''\<rparr>)"
    by (simp add: isENOENT_def)
  have npm1: "spawnSync test_host (escapedCommand ''npm'') (escapedArgs [''install''])
             (spawnOptions test_host ''/repo'' (Some [Pipe, Pipe, Pipe]) None False)
             (os \<lparr>os = 0::nat, calls = []\<rparr>)
        = (\<lparr>error = Some \<lparr>message = ''spawnSync npm ENOENT'', errno = Some ''ENOENT''\<rparr>,
             status = None, stdout = None, stderr = None\<rparr>, 1)"
    by (simp add: test_host_def test_spawnSync_def escapedCommand_def)
  have npm2: "spawnSync test_host (''npm'' @ ''.cmd'') [''install'']
             (spawnOptions test_host ''/repo'' (Some [Pipe, Pipe, Pipe]) None False) 1
        = (\<lparr>error = None, status = Some 0, stdout = Some [], stderr = Some []\<rparr>, 2)"
    by (simp add: test_host_def test_spawnSync_def)
  have npm: "\<lparr>error = None, status = Some 0, stdout = Some [], stderr = Some []\<rparr>
      = (if isENOENT \<lparr>error = Some \<lparr>message = ''spawnSync npm ENOENT'', errno = Some ''ENOENT''\<rparr>,
             status = None, stdout = None, stderr = None\<rparr>
         then \<lparr>error = None, status = Some 0, stdout = Some [], stderr = Some []\<rparr>
         else \<lparr>error = Some \<lparr>message = ''spawnSync npm ENOENT'', errno = Some ''ENOENT''\<rparr>,
             status = None, stdout = None, stderr = None\<rparr>)"
    by (simp add: isENOENT_def)
  show ?thesis
    using exit_status_reported[OF tsc1 tsc2 tsc] exit_status_reported[OF npm1 npm2 npm]
    by (simp add: number_toString_def digits.simps digit_char_def EOL_def test_host_def)
qed

text \<open>
  Claim C10. Let \<open>final\<close> be the result that the result processing sees, with no spawn error
  and a status that is \<^verbatim>\<open>null\<close> or 0. Then the result processing raises nothing and the
  execution returns the result, as for a success. The result processing raises exactly when
  there is a spawn error or the status is a number other than 0.
\<close>

theorem falsy_status_is_success:
  assumes first: "spawnSync h (escapedCommand command) (escapedArgs args)
             (spawnOptions h workingDirectory stdio' environment keepEnvironment) (os w) = (r, s)"
    and second: "spawnSync h (command @ ''.cmd'') args
             (spawnOptions h workingDirectory stdio' environment keepEnvironment) s = (r', s')"
    and final: "final = (if isENOENT r then r' else r)"
    and spawned: "error final = None"
    and falsy: "status final = None \<or> status final = Some 0"
  shows "processResult (os_platform h) final = Inr ()
       \<and> fst (executeCommandInternal h command args workingDirectory stdio' environment
                keepEnvironment w) = Inr final
       \<and> (\<forall>p result. isl (processResult p result) \<longleftrightarrow>
                error result \<noteq> None \<or> (\<exists>n. status result = Some n \<and> n \<noteq> 0))"
proof -
  from spawned falsy have ok: "processResult (os_platform h) final = Inr ()"
    by (auto simp: processResult_def)
  then have "fst (executeCommandInternal h command args workingDirectory stdio' environment
                keepEnvironment w) = Inr final"
    unfolding executeCommandInternal_result[OF first second] final[symmetric] by simp
  moreover have "\<forall>p result. isl (processResult p result) \<longleftrightarrow>
                error result \<noteq> None \<or> (\<exists>n. status result = Some n \<and> n \<noteq> 0)"
    by (auto simp: processResult_def split: option.splits)
  ultimately show ?thesis using ok by simp
qed

theorem falsy_status_is_success_witness:
  "fst (executeCommandInternal test_host ''sleep'' [''60''] ''/repo'' None None False
          \<lparr>os = 0, calls = []\<rparr>)
     = Inr \<lparr>error = None, status = None, stdout = Some [], stderr = Some []\<rparr>
   \<and> processResult Posix \<lparr>error = None, status = None, stdout = Some [], stderr = Some []\<rparr>
     = Inr ()"
proof -
  have sleep1: "spawnSync test_host (escapedCommand ''sleep'') (escapedArgs [''60''])
             (spawnOptions test_host ''/repo'' None None False)
             (os \<lparr>os = 0::nat, calls = []\<rparr>)
        = (\<lparr>error = None, status = None, stdout = Some [], stderr = Some []\<rparr>, 1)"
    by (simp add: test_host_def test_spawnSync_def escapedCommand_def)
  have sleep2: "spawnSync test_host (''sleep'' @ ''.cmd'') [''60'']
             (spawnOptions test_host ''/repo'' None None False) 1
        = (\<lparr>error = None, status = Some 0, stdout = Some [], stderr = Some []\<rparr>, 2)"
    by (simp add: test_host_def test_spawnSync_def)
  have final: "\<lparr>error = None, status = None, stdout = Some [], stderr = Some []\<rparr>
      = (if isENOENT \<lparr>error = None, status = None, stdout = Some [], stderr = Some []\<rparr>
         then \<lparr>error = None, status = Some 0, stdout = Some [], stderr = Some []\<rparr>
         else \<lparr>error = None, status = None, stdout = Some [], stderr = Some []\<rparr>)"
    by (simp add: isENOENT_def)
  show ?thesis
    using falsy_status_is_success[OF sleep1 sleep2 final] by (simp add: test_host_def)
qed

text \<open>
  Claim C7. When the first spawn reports \<^verbatim>\<open>ENOENT\<close>, exactly one more spawn follows,
  of the command name with \<^verbatim>\<open>.cmd\<close> appended, and the outcome of the call is the outcome
  of that second spawn; after any other first result there is no second spawn.
\<close>

theorem ENOENT_fallback:
  assumes first: "spawnSync h (escapedCommand command) (escapedArgs args)
             (spawnOptions h workingDirectory stdio' environment keepEnvironment) (os w) = (r, s)"
    and second: "spawnSync h (command @ ''.cmd'') args
             (spawnOptions h workingDirectory stdio' environment keepEnvironment) s = (r', s')"
  shows "((\<exists>e. error r = Some e \<and> errno e = Some ''ENOENT'') \<longrightarrow>
            executeCommandInternal h command args workingDirectory stdio' environment
                keepEnvironment w
              = (case processResult (os_platform h) r' of Inl e \<Rightarrow> Inl e | Inr _ \<Rightarrow> Inr r',
                 w\<lparr>os := s', calls := calls w @
                   [SpawnSync (escapedCommand command) (escapedArgs args)
                      (spawnOptions h workingDirectory stdio' environment keepEnvironment),
                    SpawnSync (command @ ''.cmd'') args
                      (spawnOptions h workingDirectory stdio' environment keepEnvironment)]\<rparr>))
       \<and> (\<not> (\<exists>e. error r = Some e \<and> errno e = Some ''ENOENT'') \<longrightarrow>
            executeCommandInternal h command args workingDirectory stdio' environment
                keepEnvironment w
              = (case processResult (os_platform h) r of Inl e \<Rightarrow> Inl e | Inr _ \<Rightarrow> Inr r,
                 w\<lparr>os := s, calls := calls w @
                   [SpawnSync (escapedCommand command) (escapedArgs args)
                      (spawnOptions h workingDirectory stdio' environment keepEnvironment)]\<rparr>))"
proof -
  have iff: "isENOENT r \<longleftrightarrow> (\<exists>e. error r = Some e \<and> errno e = Some ''ENOENT'')"
    by (simp add: isENOENT_def split: option.splits)
  show ?thesis
    using executeCommandInternal_fallback[OF first _ second]
      executeCommandInternal_no_fallback[OF first]
    unfolding iff by blast
qed

theorem ENOENT_fallback_witness:
  "executeCommandInternal test_host ''npm'' [''install''] ''/repo'' None None False
       \<lparr>os = 0, calls = []\<rparr>
     = (Inr \<lparr>error = None, status = Some 0, stdout = Some [], stderr = Some []\<rparr>,
        \<lparr>os = 2, calls =
           [SpawnSync ''npm'' [[CHR 0x22] @ ''install'' @ [CHR 0x22]]
              \<lparr>cwd = ''/repo'', shell = True, stdio = None,
               env = Some [(''PATH'', Some ''/bin'')]\<rparr>,
            SpawnSync ''npm.cmd'' [''install'']
              \<lparr>cwd = ''/repo'', shell = True, stdio = None,
               env = Some [(''PATH'', Some ''/bin'')]\<rparr>]\<rparr>)
   \<and> calls (snd (executeCommandInternal test_host ''tsc'' [] ''/repo'' None None False
       \<lparr>os = 0, calls = []\<rparr>))
     = [SpawnSync ''tsc'' []
              \<lparr>cwd = ''/repo'', shell = True, stdio = None,
               env = Some [(''PATH'', Some ''/bin'')]\<rparr>]"
proof -
  have npm1: "spawnSync test_host (escapedCommand ''npm'') (escapedArgs [''install''])
             (spawnOptions test_host ''/repo'' None None False) (os \<lparr>os = 0::nat, calls = []\<rparr>)
        = (\<lparr>error = Some \<lparr>message = ''spawnSync npm ENOENT'', errno = Some ''ENOENT''\<rparr>,
             status = None, stdout = None, stderr = None\<rparr>, 1)"
    by (simp add: test_host_def test_spawnSync_def escapedCommand_def)
  have npm2: "spawnSync test_host (''npm'' @ ''.cmd'') [''install'']
             (spawnOptions test_host ''/repo'' None None False) 1
        = (\<lparr>error = None, status = Some 0, stdout = Some [], stderr = Some []\<rparr>, 2)"
    by (simp add: test_host_def test_spawnSync_def)
  have tsc1: "spawnSync test_host (escapedCommand ''tsc'') (escapedArgs [])
             (spawnOptions test_host ''/repo'' None None False) (os \<lparr>os = 0::nat, calls = []\<rparr>)
        = (\<lparr>error = None, status = Some 2, stdout = Some [], stderr = Some ''error TS1005''\<rparr>, 1)"
    by (simp add: test_host_def test_spawnSync_def escapedCommand_def)
  have tsc2: "spawnSync test_host (''tsc'' @ ''.cmd'') []
             (spawnOptions test_host ''/repo'' None None False) 1
        = (\<lparr>error = None, status = Some 0, stdout = Some [], stderr = Some []\<rparr>, 2)"
    by (simp add: test_host_def test_spawnSync_def)
  show ?thesis
    using ENOENT_fallback[OF npm1 npm2] ENOENT_fallback[OF tsc1 tsc2]
    by (simp add: processResult_def EOL_def test_host_def escapedCommand_def
          escapedArgs_def escapeShellParameter_def spawnOptions_def
          createEnvironmentForRushCommand_def setProperty_def normalizedKey_def getProperty_def)
qed

subsection \<open>Escaping for the shell\<close>

lemma join_Cons: "join (x # xs) sep = x @ concat (map (\<lambda>a. sep @ a) xs)"
  by (induction xs arbitrary: x) simp_all

lemma shellWords_quoted:
  "quotable t \<Longrightarrow>
   shellWords True (Some u) (t @ CHR 0x22 # rest) = shellWords False (Some (u @ t)) rest"
  by (induction t arbitrary: u) (simp_all add: quotable_def)

lemma shellWords_unquoted:
  "bare t \<Longrightarrow> shellWords False (Some u) (t @ rest) = shellWords False (Some (u @ t)) rest"
  by (induction t arbitrary: u) (simp_all add: bare_def)

lemma shellWords_arguments:
  "\<forall>a \<in> set args. quotable a \<Longrightarrow>
   shellWords False (Some w) (concat (map (\<lambda>a. '' '' @ escapeShellParameter a) args))
     = Some (w # args)"
proof (induction args arbitrary: w)
  case Nil
  then show ?case by simp
next
  case (Cons a args)
  then have a: "quotable a" and rest: "\<forall>a \<in> set args. quotable a" by simp_all
  show ?case
    using shellWords_quoted[OF a, of "[]"] Cons.IH[OF rest]
    by (simp add: escapeShellParameter_def)
qed

lemma delivered_round_trip:
  assumes "command \<noteq> []" and "quotable command" and "CHR '' '' \<notin> set command \<longrightarrow> bare command"
    and "\<forall>a \<in> set args. quotable a"
  shows "deliveredArguments (escapedCommand command) (escapedArgs args) = Some (command # args)"
proof (cases "CHR '' '' \<in> set command")
  case True
  then show ?thesis
    using shellWords_quoted[OF assms(2), of "[]"] shellWords_arguments[OF assms(4)]
    by (simp add: deliveredArguments_def shellCommandLine_def join_Cons escapedCommand_def
          escapedArgs_def escapeShellParameter_def comp_def)
next
  case False
  from assms(1) obtain c cs where c: "command = c # cs" by (cases command) auto
  with assms(3) False have cs: "bare cs"
    and c1: "c \<noteq> CHR 0x22" "c \<noteq> CHR '' ''" "\<not> shell_special c"
    by (simp_all add: bare_def)
  show ?thesis
    using False c1 shellWords_unquoted[OF cs, of "[c]"] shellWords_arguments[OF assms(4)]
    by (simp add: deliveredArguments_def shellCommandLine_def join_Cons escapedCommand_def
          escapedArgs_def c comp_def)
qed

text \<open>
  Claim C2, as the code has it, for the first spawn of an execution, which goes through the
  shell. A command without a space is passed as it is. Let the command be not empty, let no
  token hold a double quote or a character that is special between double quotes, and let a
  command without a space hold no special character at all. Then a command with a space, and
  every argument whether or not it has a space, is passed between two double quotes, and the
  child process receives the command and the arguments as the original strings.
\<close>

theorem escaping_of_tokens:
  "(\<exists>rest. calls (snd (executeCommandInternal h command args workingDirectory stdio' environment
                keepEnvironment w))
       = calls w @ SpawnSync (escapedCommand command) (escapedArgs args)
                     (spawnOptions h workingDirectory stdio' environment keepEnvironment) # rest)
   \<and> shell (spawnOptions h workingDirectory stdio' environment keepEnvironment)
   \<and> (CHR '' '' \<notin> set command \<longrightarrow> escapedCommand command = command)
   \<and> (command \<noteq> [] \<and> quotable command \<and> (CHR '' '' \<notin> set command \<longrightarrow> bare command)
        \<and> (\<forall>a \<in> set args. quotable a) \<longrightarrow>
        (CHR '' '' \<in> set command \<longrightarrow>
           escapedCommand command = [CHR 0x22] @ command @ [CHR 0x22])
        \<and> escapedArgs args = map (\<lambda>a. [CHR 0x22] @ a @ [CHR 0x22]) args
        \<and> deliveredArguments (escapedCommand command) (escapedArgs args)
            = Some (command # args))"
proof -
  obtain r s where first: "spawnSync h (escapedCommand command) (escapedArgs args)
             (spawnOptions h workingDirectory stdio' environment keepEnvironment) (os w) = (r, s)"
    by (cases "spawnSync h (escapedCommand command) (escapedArgs args)
             (spawnOptions h workingDirectory stdio' environment keepEnvironment) (os w)")
  obtain r' s' where second: "spawnSync h (command @ ''.cmd'') args
             (spawnOptions h workingDirectory stdio' environment keepEnvironment) s = (r', s')"
    by (cases "spawnSync h (command @ ''.cmd'') args
             (spawnOptions h workingDirectory stdio' environment keepEnvironment) s")
  have "\<exists>rest. calls (snd (executeCommandInternal h command args workingDirectory stdio' environment
                keepEnvironment w))
       = calls w @ SpawnSync (escapedCommand command) (escapedArgs args)
                     (spawnOptions h workingDirectory stdio' environment keepEnvironment) # rest"
  proof (cases "isENOENT r")
    case True
    from executeCommandInternal_fallback[OF first True second] show ?thesis by simp
  next
    case False
    from executeCommandInternal_no_fallback[OF first False] show ?thesis by simp
  qed
  moreover have "shell (spawnOptions h workingDirectory stdio' environment keepEnvironment)"
    by (simp add: spawnOptions_def)
  moreover have "CHR '' '' \<notin> set command \<longrightarrow> escapedCommand command = command"
    by (simp add: escapedCommand_def)
  moreover have "CHR '' '' \<in> set command \<longrightarrow>
           escapedCommand command = [CHR 0x22] @ command @ [CHR 0x22]"
    by (simp add: escapedCommand_def escapeShellParameter_def)
  moreover have "escapedArgs args = map (\<lambda>a. [CHR 0x22] @ a @ [CHR 0x22]) args"
    by (simp add: escapedArgs_def escapeShellParameter_def)
  ultimately show ?thesis using delivered_round_trip[of command args] by blast
qed

theorem escaping_of_tokens_witness:
  "escapedCommand ''npm'' = ''npm''
   \<and> escapedCommand ''my tool'' = [CHR 0x22] @ ''my tool'' @ [CHR 0x22]
   \<and> escapedArgs [''--registry=http://r/'', ''a b'']
       = map (\<lambda>a. [CHR 0x22] @ a @ [CHR 0x22]) [''--registry=http://r/'', ''a b'']
   \<and> deliveredArguments (escapedCommand ''my tool'')
         (escapedArgs [''--registry=http://r/'', ''a b''])
       = Some [''my tool'', ''--registry=http://r/'', ''a b'']
   \<and> deliveredArguments (escapedCommand ''npm'')
         (escapedArgs [''--registry=http://r/'', ''a b''])
       = Some [''npm'', ''--registry=http://r/'', ''a b'']"
proof -
  have tokens: "''my tool'' \<noteq> [] \<and> quotable ''my tool''
        \<and> (CHR '' '' \<notin> set ''my tool'' \<longrightarrow> bare ''my tool'')
        \<and> (\<forall>a \<in> set [''--registry=http://r/'', ''a b'']. quotable a)"
    "''npm'' \<noteq> [] \<and> quotable ''npm'' \<and> (CHR '' '' \<notin> set ''npm'' \<longrightarrow> bare ''npm'')
        \<and> (\<forall>a \<in> set [''--registry=http://r/'', ''a b'']. quotable a)"
    by (simp_all add: quotable_def bare_def shell_special_def special_in_quotes_def)
  have spaces: "CHR '' '' \<in> set ''my tool''" "CHR '' '' \<notin> set ''npm''"
    by simp_all
  show ?thesis
    using escaping_of_tokens[of test_host "''my tool''" "[''--registry=http://r/'', ''a b'']"
        "''/repo''" None None False "\<lparr>os = 0, calls = []\<rparr>"]
      escaping_of_tokens[of test_host "''npm''" "[''--registry=http://r/'', ''a b'']"
        "''/repo''" None None False "\<lparr>os = 0, calls = []\<rparr>"] tokens spaces
    by blast
qed

text \<open>
  Claim C2 as stated has an argument without a space passed through unchanged; the argument
  \<^verbatim>\<open>install\<close> is not.
\<close>

theorem arguments_without_space_are_escaped:
  "\<not> (CHR '' '' \<notin> set ''install'' \<longrightarrow> escapedArgs [''install''] = [''install''])"
  by (simp add: escapedArgs_def escapeShellParameter_def)

text \<open>
  A token that holds a double quote is outside the theorem above: two different argument
  lists can give the shell the same line.
\<close>

lemma embedded_quote_collides:
  "shellCommandLine (escapedCommand command)
       (escapedArgs [''a b'' @ [CHR 0x22] @ '' '' @ [CHR 0x22] @ ''c d''])
     = shellCommandLine (escapedCommand command) (escapedArgs [''a b'', ''c d''])"
  by (simp add: shellCommandLine_def escapedArgs_def escapeShellParameter_def)

subsection \<open>Retry with an attempt budget\<close>









subsection \<open>Retry until a timeout\<close>




subsection \<open>Deleting a path\<close>






text \<open>
  Without the option the library expands a pattern; and a busy entry stops a removal part way,
  still within the folder.
\<close>

lemma rimraf_sync_expands_patterns:
  "rimraf_sync test_glob ''/tmp/*'' False \<lparr>paths = [''/tmp'', ''/tmp/a'', ''/tmp/b'', ''/etc''], busy = []\<rparr>
     = (Inr (), \<lparr>paths = [''/tmp'', ''/etc''], busy = []\<rparr>)"
  by (simp add: rimraf_sync_def removeTree_def lies_within_def test_glob_def)

lemma removeTree_stops_at_busy:
  "removeTree ''/tmp'' \<lparr>paths = [''/tmp'', ''/tmp/a'', ''/tmp/b'', ''/etc''], busy = [''/tmp/a'']\<rparr>
     = (Inl \<lparr>message = ''EBUSY: resource busy or locked, unlink /tmp/a'', errno = Some ''EBUSY''\<rparr>,
        \<lparr>paths = [''/tmp'', ''/tmp/a'', ''/etc''], busy = [''/tmp/a'']\<rparr>)"
  by (simp add: removeTree_def lies_within_def)

subsection \<open>The purge action\<close>



end
